theory Spec2Isabelle
  imports Main "HOL-Library.Word"
begin

section \<open>Data model of \<^verbatim>\<open>omero_zarr/masks.py\<close>\<close>

text \<open>
  The module turns OMERO mask shapes (packed bit rectangles anchored at a plane) into
  dense arrays of a zarr store. The embedding follows the Python source function by
  function. Exceptions are values of the type \<open>error\<close>; a function that mutates an array
  that lives in the store returns the array as it stands, also when it raises.
\<close>

datatype dtype = Bool | Int8 | Int16 | Int32 | Int64

datatype error =
    ValueError
  | IndexError
  | KeyError
  | TypeError
  | UnboundLocalError
  | AssertionError
  | AttributeError
  | OverlapError nat   \<comment> \<open>\<^verbatim>\<open>Exception(f"Mask {count} overlaps with existing labels")\<close>\<close>
  | NoTarget           \<comment> \<open>\<^verbatim>\<open>Exception("No target")\<close>\<close>

text \<open>
  \<^verbatim>\<open>MASK_DTYPE_SIZE\<close>: the dictionary from the bit depth to the numpy type.
\<close>

definition MASK_DTYPE_SIZE :: "int \<rightharpoonup> dtype" where
  "MASK_DTYPE_SIZE = [1 \<mapsto> Bool, 8 \<mapsto> Int8, 16 \<mapsto> Int16, 32 \<mapsto> Int32, 64 \<mapsto> Int64]"

text \<open>
  \<^verbatim>\<open>DIMENSION_ORDER\<close>: the axis of each dimension name. The keys are the one-letter
  strings the source iterates over (\<^verbatim>\<open>for d in "TCZ"\<close>).
\<close>

definition DIMENSION_ORDER :: "char \<rightharpoonup> nat" where
  "DIMENSION_ORDER =
     [CHR ''T'' \<mapsto> 0, CHR ''C'' \<mapsto> 1, CHR ''Z'' \<mapsto> 2, CHR ''Y'' \<mapsto> 3, CHR ''X'' \<mapsto> 4]"

text \<open>
  An OMERO mask shape, as the source reads it: \<^verbatim>\<open>unwrap(mask.theT)\<close> and its siblings
  are an integer or \<^verbatim>\<open>None\<close>; \<^verbatim>\<open>int(mask.x.val)\<close>, \<^verbatim>\<open>int(mask.y.val)\<close>,
  \<^verbatim>\<open>int(mask.width.val)\<close> and \<^verbatim>\<open>int(mask.height.val)\<close> are the values after the
  conversion to \<^verbatim>\<open>int\<close>; \<^verbatim>\<open>mask.getBytes()\<close> is the packed bit buffer.
\<close>

record mask =
  theT :: "int option"
  theC :: "int option"
  theZ :: "int option"
  mask_x :: int
  mask_y :: int
  mask_width :: int
  mask_height :: int
  mask_bytes :: "8 word list"

text \<open>
  A two-dimensional numpy array of zeros and ones, row-major: the element at row \<open>i\<close>,
  column \<open>j\<close> is \<open>pbits ! (i * ncols + j)\<close>.
\<close>

record plane =
  nrows :: nat
  ncols :: nat
  pbits :: "int list"

definition plane_at :: "plane \<Rightarrow> nat \<Rightarrow> nat \<Rightarrow> int" where
  "plane_at pl i j = pbits pl ! (i * ncols pl + j)"

definition plane_rows :: "plane \<Rightarrow> int list list" where
  "plane_rows pl = map (\<lambda>i. map (\<lambda>j. plane_at pl i j) [0..<ncols pl]) [0..<nrows pl]"

section \<open>Decoding a mask: \<^verbatim>\<open>_mask_to_binim_yx\<close>\<close>

text \<open>
  \<^verbatim>\<open>np.unpackbits\<close> on a \<^verbatim>\<open>uint8\<close> array: eight elements per byte, the most
  significant bit first.
\<close>

definition unpack_byte :: "8 word \<Rightarrow> int list" where
  "unpack_byte b = map (\<lambda>i. if bit b i then 1 else 0) [7, 6, 5, 4, 3, 2, 1, 0]"

definition unpackbits :: "8 word list \<Rightarrow> int list" where
  "unpackbits bs = concat (map unpack_byte bs)"

text \<open>
  The Python slice \<^verbatim>\<open>a[:n]\<close> of a one-dimensional array: a negative \<open>n\<close> counts from
  the end, and the bounds are clipped.
\<close>

definition slice_to :: "'a list \<Rightarrow> int \<Rightarrow> 'a list" where
  "slice_to xs n =
     (if n < 0 then take (nat (int (length xs) + n)) xs else take (nat n) xs)"

text \<open>
  \<^verbatim>\<open>np.reshape(a, (h, w))\<close> of a one-dimensional array: the sizes must agree; one
  dimension may be \<open>-1\<close> and is then inferred; anything else raises \<^verbatim>\<open>ValueError\<close>.
\<close>

definition np_reshape :: "int list \<Rightarrow> int \<Rightarrow> int \<Rightarrow> error + plane" where
  "np_reshape xs h w =
     (let n = int (length xs) in
      if h < - 1 then Inl ValueError
      else if w < - 1 then Inl ValueError
      else if h = - 1 then
        (if w = - 1 then Inl ValueError
         else if w = 0 then Inl ValueError
         else if n mod w = 0 then Inr \<lparr>nrows = nat (n div w), ncols = nat w, pbits = xs\<rparr>
         else Inl ValueError)
      else if w = - 1 then
        (if h = 0 then Inl ValueError
         else if n mod h = 0 then Inr \<lparr>nrows = nat h, ncols = nat (n div h), pbits = xs\<rparr>
         else Inl ValueError)
      else if h * w = n then Inr \<lparr>nrows = nat h, ncols = nat w, pbits = xs\<rparr>
      else Inl ValueError)"

text \<open>
  \<^verbatim>\<open>_mask_to_binim_yx\<close>. The cast \<^verbatim>\<open>astype(self.dtype)\<close> keeps the values 0 and 1 in
  every type of \<^verbatim>\<open>MASK_DTYPE_SIZE\<close>, so the plane holds them as integers. The second
  component is the tuple \<^verbatim>\<open>(t, c, z, y, x, h, w)\<close>.
\<close>

type_synonym mask_settings =
  "int option \<times> int option \<times> int option \<times> int \<times> int \<times> int \<times> int"

definition mask_to_binim_yx :: "mask \<Rightarrow> error + (plane \<times> mask_settings)" where
  "mask_to_binim_yx m =
     (let t = theT m; c = theC m; z = theZ m;
          x = mask_x m; y = mask_y m; w = mask_width m; h = mask_height m;
          binarray = unpackbits (mask_bytes m)
      in case np_reshape (slice_to binarray (w * h)) h w of
           Inl e \<Rightarrow> Inl e
         | Inr binim \<Rightarrow> Inr (binim, (t, c, z, y, x, h, w)))"

section \<open>Plane indices: \<^verbatim>\<open>_get_indices\<close>\<close>

definition get_indices :: "char set \<Rightarrow> char \<Rightarrow> int option \<Rightarrow> nat \<Rightarrow> int list" where
  "get_indices ignored_dimensions d d_value d_size =
     (if d \<in> ignored_dimensions then [0]
      else case d_value of
             Some v \<Rightarrow> [v]
           | None \<Rightarrow> map int [0..<d_size])"

section \<open>Arrays\<close>

text \<open>
  An n-dimensional array whose last two axes are Y and X. \<open>lead\<close> holds the extents of
  the leading axes, and a cell is addressed by the tuple of its leading indices, its row
  and its column. The label array of the styles "labeled" and "split" has the leading
  axes \<open>(T, C, Z)\<close>, the array of the style "6d" has \<open>(G, T, C, Z)\<close>. The docstrings of
  \<^verbatim>\<open>masks_to_labels\<close> and \<^verbatim>\<open>stack_masks\<close> declare \<^verbatim>\<open>mask_shape\<close> a 5-tuple
  (\<^verbatim>\<open>assert len(mask_shape) > 3\<close> holds of every such tuple), and a 5-tuple is its type
  here.
\<close>

record 'p ndarray =
  lead :: 'p
  ysize :: nat
  xsize :: nat
  adtype :: dtype
  cells :: "'p \<Rightarrow> nat \<Rightarrow> nat \<Rightarrow> int"

type_synonym shape5 = "nat \<times> nat \<times> nat \<times> nat \<times> nat"
type_synonym shape6 = "nat \<times> nat \<times> nat \<times> nat \<times> nat \<times> nat"
type_synonym label_array = "(nat \<times> nat \<times> nat) ndarray"
type_synonym stack_array = "(nat \<times> nat \<times> nat \<times> nat) ndarray"

definition zeros :: "'p \<Rightarrow> nat \<Rightarrow> nat \<Rightarrow> dtype \<Rightarrow> 'p ndarray" where
  "zeros l sy sx dt =
     \<lparr>lead = l, ysize = sy, xsize = sx, adtype = dt, cells = (\<lambda>p yy xx. 0)\<rparr>"

definition label_shape :: "label_array \<Rightarrow> shape5" where
  "label_shape a = (case lead a of (t, c, z) \<Rightarrow> (t, c, z, ysize a, xsize a))"

definition stack_shape :: "stack_array \<Rightarrow> shape6" where
  "stack_shape a = (case lead a of (g, t, c, z) \<Rightarrow> (g, t, c, z, ysize a, xsize a))"

definition axis_extent :: "shape5 \<Rightarrow> nat \<Rightarrow> nat" where
  "axis_extent s i =
     (case s of (t, c, z, y, x) \<Rightarrow>
        if i = 0 then t else if i = 1 then c else if i = 2 then z
        else if i = 3 then y else x)"

text \<open>
  Storing a value in an array of a given type: the signed integer types keep the low
  bits (two's complement), the boolean type keeps the truth value. numpy computes
  \<^verbatim>\<open>binim_yx * (count + 1)\<close> and the sum in a type wide enough for \<^verbatim>\<open>count + 1\<close>
  (below \<open>2 ^ 63\<close> for every list that fits in memory) and casts the sum to the type of
  the destination, so the stored value is the cast of the exact sum.
\<close>

fun cast_to :: "dtype \<Rightarrow> int \<Rightarrow> int" where
  "cast_to Bool v = (if v = 0 then 0 else 1)"
| "cast_to Int8 v = sint (word_of_int v :: 8 word)"
| "cast_to Int16 v = sint (word_of_int v :: 16 word)"
| "cast_to Int32 v = sint (word_of_int v :: 32 word)"
| "cast_to Int64 v = sint (word_of_int v :: 64 word)"

text \<open>
  An integer index of a zarr selection: a negative index counts from the end; an index
  outside the axis raises \<^verbatim>\<open>IndexError\<close>.
\<close>

definition norm_index :: "nat \<Rightarrow> int \<Rightarrow> error + nat" where
  "norm_index dim_len i =
     (let j = (if i < 0 then int dim_len + i else i)
      in if j < 0 then Inl IndexError
         else if int dim_len \<le> j then Inl IndexError
         else Inr (nat j))"

definition norm_tcz :: "nat \<times> nat \<times> nat \<Rightarrow> int \<times> int \<times> int \<Rightarrow> error + (nat \<times> nat \<times> nat)" where
  "norm_tcz ext idx =
     (case ext of (size_t, size_c, size_z) \<Rightarrow>
      case idx of (i_t, i_c, i_z) \<Rightarrow>
      case norm_index size_t i_t of Inl e \<Rightarrow> Inl e | Inr t \<Rightarrow>
      case norm_index size_c i_c of Inl e \<Rightarrow> Inl e | Inr c \<Rightarrow>
      case norm_index size_z i_z of Inl e \<Rightarrow> Inl e | Inr z \<Rightarrow> Inr (t, c, z))"

definition norm_gtcz ::
  "nat \<times> nat \<times> nat \<times> nat \<Rightarrow> int \<times> int \<times> int \<times> int \<Rightarrow> error + (nat \<times> nat \<times> nat \<times> nat)" where
  "norm_gtcz ext idx =
     (case ext of (size_g, ext3) \<Rightarrow>
      case idx of (i_g, idx3) \<Rightarrow>
      case norm_index size_g i_g of Inl e \<Rightarrow> Inl e | Inr g \<Rightarrow>
      case norm_tcz ext3 idx3 of Inl e \<Rightarrow> Inl e | Inr (t, c, z) \<Rightarrow> Inr (g, t, c, z))"

text \<open>
  A slice \<^verbatim>\<open>start:stop\<close> of an axis, as \<^verbatim>\<open>slice.indices\<close> computes it: a negative
  bound counts from the end, and both bounds are clipped to the axis. The slice selects
  the indices from the first bound up to, not including, the second.
\<close>

definition clip_bound :: "nat \<Rightarrow> int \<Rightarrow> nat" where
  "clip_bound dim_len v = (if v < 0 then nat (int dim_len + v) else min (nat v) dim_len)"

definition slice_bounds :: "nat \<Rightarrow> int \<Rightarrow> int \<Rightarrow> nat \<times> nat" where
  "slice_bounds dim_len start stop = (clip_bound dim_len start, clip_bound dim_len stop)"

text \<open>numpy broadcasting of two extents: equal, or one of them 1.\<close>

definition broadcastable :: "nat \<Rightarrow> nat \<Rightarrow> bool" where
  "broadcastable a b = (a = b \<or> a = 1 \<or> b = 1)"

definition bdim :: "nat \<Rightarrow> nat \<Rightarrow> nat" where
  "bdim a b = (if a = 1 then b else a)"

definition bidx :: "nat \<Rightarrow> nat \<Rightarrow> nat" where
  "bidx n i = (if n = 1 then 0 else i)"

text \<open>
  The overlap test
  \<^verbatim>\<open>np.any(np.logical_and(labels[i_t, i_c, i_z, y:(y+h), x:(x+w)].astype(np.bool), binim_yx))\<close>
  on the plane \<open>p\<close> and the region \<open>ys\<close>, \<open>xs\<close> already cut out by the slices.
\<close>

definition region_overlaps ::
  "'p ndarray \<Rightarrow> 'p \<Rightarrow> nat \<times> nat \<Rightarrow> nat \<times> nat \<Rightarrow> plane \<Rightarrow> error + bool" where
  "region_overlaps a p ys xs binim =
     (let y0 = fst ys; rh = snd ys - fst ys; x0 = fst xs; rw = snd xs - fst xs;
          bh = nrows binim; bw = ncols binim
      in if broadcastable rh bh then
           if broadcastable rw bw then
             Inr (list_ex (\<lambda>i. list_ex (\<lambda>j.
                    cells a p (y0 + bidx rh i) (x0 + bidx rw j) \<noteq> 0 \<and>
                    plane_at binim (bidx bh i) (bidx bw j) \<noteq> 0)
                  [0..<bdim rw bw]) [0..<bdim rh bh])
           else Inl ValueError
         else Inl ValueError)"

text \<open>
  The in-place addition \<^verbatim>\<open>a[p, y:(y+h), x:(x+w)] += binim * k\<close>: the region is read,
  added to in place and written back. The right-hand side must broadcast to the shape of
  the region, and an integer right-hand side cannot be cast into a boolean array
  (casting rule \<^verbatim>\<open>same_kind\<close>). \<open>rhs_bool\<close> says that the right-hand side is boolean.
\<close>

definition fits :: "nat \<Rightarrow> nat \<Rightarrow> bool" where
  "fits b r = (b = r \<or> b = 1)"

definition add_region ::
  "'p ndarray \<Rightarrow> 'p \<Rightarrow> nat \<times> nat \<Rightarrow> nat \<times> nat \<Rightarrow> plane \<Rightarrow> bool \<Rightarrow> int \<Rightarrow> error + 'p ndarray" where
  "add_region a p ys xs binim rhs_bool k =
     (let y0 = fst ys; y1 = snd ys; x0 = fst xs; x1 = snd xs;
          bh = nrows binim; bw = ncols binim
      in if adtype a = Bool \<and> \<not> rhs_bool then Inl TypeError
         else if fits bh (y1 - y0) \<and> fits bw (x1 - x0) then
           Inr (a\<lparr>cells := (\<lambda>p' yy xx.
                  if p' = p \<and> y0 \<le> yy \<and> yy < y1 \<and> x0 \<le> xx \<and> xx < x1
                  then cast_to (adtype a)
                         (cells a p yy xx + plane_at binim (bidx bh (yy - y0)) (bidx bw (xx - x0)) * k)
                  else cells a p' yy xx)\<rparr>)
         else Inl ValueError)"

section \<open>Loops over a mutable array\<close>

text \<open>
  A \<^verbatim>\<open>for\<close> loop whose body mutates the array and may raise: the loop stops at the first
  exception, and the array keeps what was written before it.
\<close>

fun for_each :: "('x \<Rightarrow> 's \<Rightarrow> (error \<times> 's) + 's) \<Rightarrow> 'x list \<Rightarrow> 's \<Rightarrow> (error \<times> 's) + 's" where
  "for_each body [] s = Inr s"
| "for_each body (v # vs) s =
     (case body v s of Inl e \<Rightarrow> Inl e | Inr s' \<Rightarrow> for_each body vs s')"

text \<open>\<^verbatim>\<open>for count, v in enumerate(vs)\<close>, counting from \<open>count\<close>.\<close>

fun for_enumerate ::
  "(nat \<Rightarrow> 'x \<Rightarrow> 's \<Rightarrow> (error \<times> 's) + 's) \<Rightarrow> nat \<Rightarrow> 'x list \<Rightarrow> 's \<Rightarrow> (error \<times> 's) + 's" where
  "for_enumerate body count [] s = Inr s"
| "for_enumerate body count (v # vs) s =
     (case body count v s of Inl e \<Rightarrow> Inl e | Inr s' \<Rightarrow> for_enumerate body (Suc count) vs s')"

section \<open>\<^verbatim>\<open>masks_to_labels\<close>\<close>

text \<open>
  The body of the innermost loop (source lines 314 to 329): the overlap test when
  \<^verbatim>\<open>check_overlaps\<close> is set, then the addition of \<^verbatim>\<open>binim_yx * (count + 1)\<close>.
\<close>

definition label_plane ::
  "bool \<Rightarrow> nat \<Rightarrow> plane \<Rightarrow> int \<Rightarrow> int \<Rightarrow> int \<Rightarrow> int \<Rightarrow> int \<times> int \<times> int \<Rightarrow> label_array
     \<Rightarrow> (error \<times> label_array) + label_array" where
  "label_plane check_overlaps count binim_yx y x h w i_tcz labels =
     (case norm_tcz (lead labels) i_tcz of
        Inl e \<Rightarrow> Inl (e, labels)
      | Inr p \<Rightarrow>
          let ys = slice_bounds (ysize labels) y (y + h);
              xs = slice_bounds (xsize labels) x (x + w)
          in case (if check_overlaps then region_overlaps labels p ys xs binim_yx
                   else Inr False) of
               Inl e \<Rightarrow> Inl (e, labels)
             | Inr True \<Rightarrow> Inl (OverlapError count, labels)
             | Inr False \<Rightarrow>
                 (case add_region labels p ys xs binim_yx False (int count + 1) of
                    Inl e \<Rightarrow> Inl (e, labels)
                  | Inr labels' \<Rightarrow> Inr labels'))"

text \<open>The three nested loops over the plane indices of one mask (lines 308 to 329).\<close>

definition label_mask ::
  "bool \<Rightarrow> char set \<Rightarrow> nat \<times> nat \<times> nat \<Rightarrow> nat \<Rightarrow> mask \<Rightarrow> label_array
     \<Rightarrow> (error \<times> label_array) + label_array" where
  "label_mask check_overlaps ignored_dimensions sizes count m labels =
     (case sizes of (size_t, size_c, size_z) \<Rightarrow>
      case mask_to_binim_yx m of
        Inl e \<Rightarrow> Inl (e, labels)
      | Inr (binim_yx, (t, c, z, y, x, h, w)) \<Rightarrow>
          for_each (\<lambda>i_t.
            for_each (\<lambda>i_c.
              for_each (\<lambda>i_z. label_plane check_overlaps count binim_yx y x h w (i_t, i_c, i_z))
                (get_indices ignored_dimensions CHR ''Z'' z size_z))
              (get_indices ignored_dimensions CHR ''C'' c size_c))
            (get_indices ignored_dimensions CHR ''T'' t size_t) labels)"

definition label_loops ::
  "bool \<Rightarrow> char set \<Rightarrow> nat \<times> nat \<times> nat \<Rightarrow> mask list list \<Rightarrow> label_array
     \<Rightarrow> (error \<times> label_array) + label_array" where
  "label_loops check_overlaps ignored_dimensions sizes masks labels =
     for_enumerate (\<lambda>count shapes.
         for_each (label_mask check_overlaps ignored_dimensions sizes count) shapes)
       0 masks labels"

text \<open>
  The assertions of lines 291 to 298, for each \<open>d\<close> of \<^verbatim>\<open>"TCZYX"\<close>: an ignored dimension
  has extent 1, and the shape of the array is \<^verbatim>\<open>mask_shape\<close>.
\<close>

fun shape_asserts :: "char set \<Rightarrow> shape5 \<Rightarrow> shape5 \<Rightarrow> char list \<Rightarrow> bool" where
  "shape_asserts ignored_dimensions shp mask_shape [] = True"
| "shape_asserts ignored_dimensions shp mask_shape (d # ds) =
     (if d \<in> ignored_dimensions then
        (if axis_extent shp (the (DIMENSION_ORDER d)) = 1 then
           (if shp = mask_shape then shape_asserts ignored_dimensions shp mask_shape ds else False)
         else False)
      else if shp = mask_shape then shape_asserts ignored_dimensions shp mask_shape ds
      else False)"

text \<open>
  \<^verbatim>\<open>masks_to_labels\<close>, called with a zarr array \<open>labels\<close>. A zarr array is falsy when its
  first extent is 0; \<^verbatim>\<open>if not labels\<close> then replaces it by a fresh numpy array of
  \<^verbatim>\<open>np.int64\<close>, which the loops fill instead of the zarr array and which has no
  \<^verbatim>\<open>attrs\<close>, so that the last statement raises. The fill colours collected for
  \<^verbatim>\<open>attrs["color"]\<close> are metadata and are left out.
\<close>

definition masks_to_labels ::
  "mask list list \<Rightarrow> shape5 \<Rightarrow> char set \<Rightarrow> bool \<Rightarrow> label_array
     \<Rightarrow> (error \<times> label_array) + label_array" where
  "masks_to_labels masks mask_shape ignored_dimensions check_overlaps labels =
     (case mask_shape of (size_t, size_c, size_z, size_y, size_x) \<Rightarrow>
      if fst (lead labels) = 0 then
        (let fresh = zeros (size_t, size_c, size_z) size_y size_x Int64
         in if shape_asserts ignored_dimensions (label_shape fresh) mask_shape ''TCZYX'' then
              (case label_loops check_overlaps ignored_dimensions (size_t, size_c, size_z)
                      masks fresh of
                 Inl (e, fresh') \<Rightarrow> Inl (e, labels)
               | Inr fresh' \<Rightarrow> Inl (AttributeError, labels))
            else Inl (AssertionError, labels))
      else if shape_asserts ignored_dimensions (label_shape labels) mask_shape ''TCZYX'' then
        label_loops check_overlaps ignored_dimensions (size_t, size_c, size_z) masks labels
      else Inl (AssertionError, labels))"

section \<open>\<^verbatim>\<open>stack_masks\<close>\<close>

text \<open>
  The body of the innermost loop (lines 386 to 388):
  \<^verbatim>\<open>target[count, i_t, i_c, i_z, y:(y+h), x:(x+w)] += binim_yx\<close>. The plane has the type
  \<^verbatim>\<open>self.dtype\<close>, given as \<open>self_dtype\<close>.
\<close>

definition stack_plane ::
  "dtype \<Rightarrow> nat \<Rightarrow> plane \<Rightarrow> int \<Rightarrow> int \<Rightarrow> int \<Rightarrow> int \<Rightarrow> int \<times> int \<times> int \<Rightarrow> stack_array
     \<Rightarrow> (error \<times> stack_array) + stack_array" where
  "stack_plane self_dtype count binim_yx y x h w i_tcz target =
     (case norm_gtcz (lead target) (int count, i_tcz) of
        Inl e \<Rightarrow> Inl (e, target)
      | Inr p \<Rightarrow>
          let ys = slice_bounds (ysize target) y (y + h);
              xs = slice_bounds (xsize target) x (x + w)
          in case add_region target p ys xs binim_yx (self_dtype = Bool) 1 of
               Inl e \<Rightarrow> Inl (e, target)
             | Inr target' \<Rightarrow> Inr target')"

definition stack_mask ::
  "dtype \<Rightarrow> char set \<Rightarrow> nat \<times> nat \<times> nat \<Rightarrow> nat \<Rightarrow> mask \<Rightarrow> stack_array
     \<Rightarrow> (error \<times> stack_array) + stack_array" where
  "stack_mask self_dtype ignored_dimensions sizes count m target =
     (case sizes of (size_t, size_c, size_z) \<Rightarrow>
      case mask_to_binim_yx m of
        Inl e \<Rightarrow> Inl (e, target)
      | Inr (binim_yx, (t, c, z, y, x, h, w)) \<Rightarrow>
          for_each (\<lambda>i_t.
            for_each (\<lambda>i_c.
              for_each (\<lambda>i_z. stack_plane self_dtype count binim_yx y x h w (i_t, i_c, i_z))
                (get_indices ignored_dimensions CHR ''Z'' z size_z))
              (get_indices ignored_dimensions CHR ''C'' c size_c))
            (get_indices ignored_dimensions CHR ''T'' t size_t) target)"

fun stack_asserts :: "char set \<Rightarrow> shape6 \<Rightarrow> shape6 \<Rightarrow> char list \<Rightarrow> bool" where
  "stack_asserts ignored_dimensions shp expected [] = True"
| "stack_asserts ignored_dimensions shp expected (d # ds) =
     (if d \<in> ignored_dimensions then
        (if axis_extent (snd shp) (the (DIMENSION_ORDER d)) = 1 then
           (if shp = expected then stack_asserts ignored_dimensions shp expected ds else False)
         else False)
      else if shp = expected then stack_asserts ignored_dimensions shp expected ds
      else False)"

text \<open>
  \<^verbatim>\<open>stack_masks\<close>. The parameter \<^verbatim>\<open>check_overlaps\<close> is accepted and never read by
  the source.
\<close>

definition stack_masks ::
  "dtype \<Rightarrow> mask list list \<Rightarrow> shape5 \<Rightarrow> stack_array \<Rightarrow> char set \<Rightarrow> bool
     \<Rightarrow> (error \<times> stack_array) + stack_array" where
  "stack_masks self_dtype masks mask_shape target ignored_dimensions check_overlaps =
     (case mask_shape of (size_t, size_c, size_z, size_y, size_x) \<Rightarrow>
      if fst (lead target) = 0 then Inl (NoTarget, target)
      else if stack_asserts ignored_dimensions (stack_shape target)
                (length masks, mask_shape) ''TCZYX'' then
        for_enumerate (\<lambda>count shapes.
            for_each (stack_mask self_dtype ignored_dimensions (size_t, size_c, size_z) count) shapes)
          0 masks target
      else Inl (AssertionError, target))"

section \<open>\<^verbatim>\<open>MaskSaver.save\<close>\<close>

text \<open>
  The fields of \<^verbatim>\<open>MaskSaver\<close> that \<^verbatim>\<open>save\<close> reads. \<open>source_ok\<close> is the truth value of
  \<^verbatim>\<open>ome_zarr.parse_url(source_image)\<close>, which the source asserts.
\<close>

record mask_saver =
  saver_dtype :: dtype
  saver_style :: string
  size_t :: nat
  size_c :: nat
  size_z :: nat
  size_y :: nat
  size_x :: nat
  source_ok :: bool

definition image_shape :: "mask_saver \<Rightarrow> shape5" where
  "image_shape self = (size_t self, size_c self, size_z self, size_y self, size_x self)"

text \<open>
  The group \<^verbatim>\<open>out_labels\<close> of the zarr file: its named arrays and its attribute
  \<^verbatim>\<open>labels\<close>, the list of the names written so far.
\<close>

datatype dataset = LabelArray label_array | StackArray stack_array

record label_group =
  datasets :: "string \<rightharpoonup> dataset"
  labels_attr :: "string list"

text \<open>
  Lines 124 to 134: the set of the declared values of each of T, C and Z over all masks
  of the grouping, and the dimensions whose set is \<^verbatim>\<open>{None}\<close>, in the order of the loop
  \<^verbatim>\<open>for d in "TCZ"\<close>.
\<close>

definition unique_dims :: "mask list list \<Rightarrow> char \<Rightarrow> int option set" where
  "unique_dims masks d =
     (if d = CHR ''T'' then set (map theT (concat masks))
      else if d = CHR ''C'' then set (map theC (concat masks))
      else set (map theZ (concat masks)))"

definition ignored_dims :: "mask list list \<Rightarrow> char list" where
  "ignored_dims masks = filter (\<lambda>d. unique_dims masks d = {None}) ''TCZ''"

text \<open>
  Lines 156 to 160. \<^verbatim>\<open>mask_shape\<close> is assigned inside the loop over the ignored
  dimensions only; \<open>None\<close> stands for the name still unbound after the loop.
\<close>

definition set_axis_1 :: "nat \<Rightarrow> shape5 \<Rightarrow> shape5" where
  "set_axis_1 i s =
     (case s of (t, c, z, y, x) \<Rightarrow>
        if i = 0 then (1, c, z, y, x) else if i = 1 then (t, 1, z, y, x)
        else if i = 2 then (t, c, 1, y, x) else if i = 3 then (t, c, z, 1, x)
        else (t, c, z, y, 1))"

fun collapse_axes :: "char list \<Rightarrow> shape5 \<Rightarrow> shape5 option \<Rightarrow> shape5 option" where
  "collapse_axes [] mask_shape0 mask_shape = mask_shape"
| "collapse_axes (d # ds) mask_shape0 mask_shape =
     (let m = set_axis_1 (the (DIMENSION_ORDER d)) mask_shape0
      in collapse_axes ds m (Some m))"

definition register_label :: "string \<Rightarrow> label_group \<Rightarrow> label_group" where
  "register_label name g =
     (if name \<in> set (labels_attr g) then g
      else g\<lparr>labels_attr := labels_attr g @ [name]\<rparr>)"

definition put_dataset :: "string \<Rightarrow> dataset \<Rightarrow> label_group \<Rightarrow> label_group" where
  "put_dataset name d g = g\<lparr>datasets := (datasets g)(name \<mapsto> d)\<rparr>"

text \<open>
  \<^verbatim>\<open>save\<close>. The array is created in the store (zero-filled, \<^verbatim>\<open>overwrite=True\<close>) before
  it is filled, so an exception of the filling leaves it in the group as far as it was
  written. The \<^verbatim>\<open>image\<close> attribute of the array is metadata and is left out.
\<close>

definition save ::
  "mask_saver \<Rightarrow> mask list list \<Rightarrow> string \<Rightarrow> label_group \<Rightarrow> (error \<times> label_group) + label_group" where
  "save self masks name out_labels =
     (let ignored_dimensions = ignored_dims masks;
          mask_shape = collapse_axes ignored_dimensions (image_shape self) None
      in if source_ok self then
           if saver_style self \<in> {''labeled'', ''split''} then
             (case mask_shape of
                None \<Rightarrow> Inl (UnboundLocalError, out_labels)
              | Some (st, sc, sz, sy, sx) \<Rightarrow>
                  let za = zeros (st, sc, sz) sy sx (saver_dtype self)
                  in case masks_to_labels masks (st, sc, sz, sy, sx) (set ignored_dimensions)
                            True za of
                       Inl (e, za') \<Rightarrow> Inl (e, put_dataset name (LabelArray za') out_labels)
                     | Inr za' \<Rightarrow>
                         Inr (register_label name (put_dataset name (LabelArray za') out_labels)))
           else if saver_style self = ''6d'' then
             (case mask_shape of
                None \<Rightarrow> Inl (UnboundLocalError, out_labels)
              | Some (st, sc, sz, sy, sx) \<Rightarrow>
                  let za = zeros (length masks, st, sc, sz) sy sx (saver_dtype self)
                  in case stack_masks (saver_dtype self) masks (st, sc, sz, sy, sx) za
                            (set ignored_dimensions) True of
                       Inl (e, za') \<Rightarrow> Inl (e, put_dataset name (StackArray za') out_labels)
                     | Inr za' \<Rightarrow>
                         Inr (register_label name (put_dataset name (StackArray za') out_labels)))
           else Inl (AssertionError, out_labels)
         else Inl (AssertionError, out_labels))"

section \<open>\<^verbatim>\<open>image_masks_to_zarr\<close>\<close>

text \<open>
  Python strings: \<^verbatim>\<open>str.strip\<close>, \<^verbatim>\<open>str.split(",")\<close>, \<^verbatim>\<open>int\<close> of a string in base 10
  and \<^verbatim>\<open>str\<close> of an integer. Characters are bytes here, so whitespace and digits are
  the ASCII ones.
\<close>

definition is_space :: "char \<Rightarrow> bool" where
  "is_space ch =
     (ch \<in> set [CHR '' '', CHR 0x09, CHR 0x0A, CHR 0x0B, CHR 0x0C, CHR 0x0D,
                CHR 0x1C, CHR 0x1D, CHR 0x1E, CHR 0x1F])"

definition strip :: "string \<Rightarrow> string" where
  "strip s = rev (dropWhile is_space (rev (dropWhile is_space s)))"

fun split_comma :: "string \<Rightarrow> string list" where
  "split_comma [] = [[]]"
| "split_comma (ch # cs) =
     (if ch = CHR '','' then [] # split_comma cs
      else case split_comma cs of
             [] \<Rightarrow> [[ch]]
           | f # fs \<Rightarrow> (ch # f) # fs)"

definition digit_val :: "char \<Rightarrow> nat option" where
  "digit_val ch =
     (let n = (of_char ch :: nat) in if 48 \<le> n \<and> n \<le> 57 then Some (n - 48) else None)"

text \<open>
  The digits of an integer literal: decimal digits, with single underscores allowed
  between two digits. \<open>prev\<close> says that the character before was a digit.
\<close>

fun parse_digits :: "string \<Rightarrow> nat \<Rightarrow> bool \<Rightarrow> nat option" where
  "parse_digits [] acc prev = (if prev then Some acc else None)"
| "parse_digits (ch # cs) acc prev =
     (if ch = CHR ''_'' then (if prev then parse_digits cs acc False else None)
      else case digit_val ch of
             None \<Rightarrow> None
           | Some d \<Rightarrow> parse_digits cs (10 * acc + d) True)"

definition py_int :: "string \<Rightarrow> error + int" where
  "py_int s =
     (case strip s of
        [] \<Rightarrow> Inl ValueError
      | ch # cs \<Rightarrow>
          if ch = CHR ''-'' then
            (case parse_digits cs 0 False of None \<Rightarrow> Inl ValueError | Some n \<Rightarrow> Inr (- int n))
          else if ch = CHR ''+'' then
            (case parse_digits cs 0 False of None \<Rightarrow> Inl ValueError | Some n \<Rightarrow> Inr (int n))
          else
            (case parse_digits (ch # cs) 0 False of None \<Rightarrow> Inl ValueError | Some n \<Rightarrow> Inr (int n)))"

function str_nat :: "nat \<Rightarrow> string" where
  "str_nat n =
     (if n < 10 then [char_of (48 + n)]
      else str_nat (n div 10) @ [char_of (48 + n mod 10)])"
  by pat_completeness auto
termination
  by (relation "measure id") auto

definition str_int :: "int \<Rightarrow> string" where
  "str_int i = (if i < 0 then CHR ''-'' # str_nat (nat (- i)) else str_nat (nat i))"

text \<open>
  The inputs of \<^verbatim>\<open>image_masks_to_zarr\<close>: the ROIs that the ROI service returns for the
  image, each with its id and its shapes, of which only the masks (\<^verbatim>\<open>MaskI\<close>) are kept;
  the sizes of the image; and the command-line arguments that the function reads.
  \<open>label_map\<close> holds the lines of the label-map file when the option is given.
\<close>

datatype shape = MaskI mask | OtherShape

record roi =
  roi_id :: int
  roi_shapes :: "shape list"

record image =
  image_size_t :: nat
  image_size_c :: nat
  image_size_z :: nat
  image_size_y :: nat
  image_size_x :: nat
  image_source_ok :: bool

record args =
  label_bits :: string
  style :: string
  label_name :: string
  label_map :: "string list option"

text \<open>A Python dictionary, in insertion order; assigning to a present key keeps its place.\<close>

fun dict_set :: "'k \<Rightarrow> 'v \<Rightarrow> ('k \<times> 'v) list \<Rightarrow> ('k \<times> 'v) list" where
  "dict_set k v [] = [(k, v)]"
| "dict_set k v (kv # kvs) = (if fst kv = k then (k, v) # kvs else kv # dict_set k v kvs)"

definition mask_shapes_of :: "roi \<Rightarrow> mask list" where
  "mask_shapes_of r = concat (map (\<lambda>s. case s of MaskI m \<Rightarrow> [m] | OtherShape \<Rightarrow> []) (roi_shapes r))"

text \<open>Lines 37 to 47: the dictionary \<^verbatim>\<open>masks\<close> from the ROI id to the masks of the ROI.\<close>

fun collect_masks :: "roi list \<Rightarrow> (int \<times> mask list) list \<Rightarrow> (int \<times> mask list) list" where
  "collect_masks [] masks = masks"
| "collect_masks (r # rs) masks =
     (if length (mask_shapes_of r) > 0
      then collect_masks rs (dict_set (roi_id r) (mask_shapes_of r) masks)
      else collect_masks rs masks)"

text \<open>
  Lines 72 to 78: the loop over the lines of the label map, inside \<^verbatim>\<open>try\<close>. An
  exception ends the loop and is printed; the dictionary \<^verbatim>\<open>label_map\<close> keeps what the
  lines before have put into it. \<^verbatim>\<open>label_map[name]\<close> on the \<^verbatim>\<open>defaultdict\<close> creates
  the entry of a new name before \<^verbatim>\<open>roi_map[int(roi)]\<close> is evaluated. The result is the
  exception, if any, and the dictionary.
\<close>

definition dict_default :: "string \<Rightarrow> (string \<times> 'v list) list \<Rightarrow> (string \<times> 'v list) list" where
  "dict_default name d = (if name \<in> set (map fst d) then d else d @ [(name, [])])"

definition dict_append :: "string \<Rightarrow> 'v \<Rightarrow> (string \<times> 'v list) list \<Rightarrow> (string \<times> 'v list) list" where
  "dict_append name v d = map (\<lambda>kv. if fst kv = name then (fst kv, snd kv @ [v]) else kv) d"

fun read_label_map ::
  "(int \<times> mask list) list \<Rightarrow> string list \<Rightarrow> (string \<times> mask list list) list
     \<Rightarrow> error option \<times> (string \<times> mask list list) list" where
  "read_label_map roi_map [] lmap = (None, lmap)"
| "read_label_map roi_map (line # lines) lmap =
     (case split_comma (strip line) of
        [sid, name, roi] \<Rightarrow>
          (let lmap1 = dict_default name lmap
           in case py_int roi of
                Inl e \<Rightarrow> (Some e, lmap1)
              | Inr k \<Rightarrow>
                  (case map_of roi_map k of
                     None \<Rightarrow> (Some KeyError, lmap1)
                   | Some r \<Rightarrow> read_label_map roi_map lines (dict_append name r lmap1)))
      | _ \<Rightarrow> (Some ValueError, lmap))"

definition saver_of :: "image \<Rightarrow> dtype \<Rightarrow> string \<Rightarrow> mask_saver" where
  "saver_of img dt st =
     \<lparr>saver_dtype = dt, saver_style = st,
      size_t = image_size_t img, size_c = image_size_c img, size_z = image_size_z img,
      size_y = image_size_y img, size_x = image_size_x img,
      source_ok = image_source_ok img\<rparr>"

text \<open>
  Lines 51 to 55: the type of the arrays. The bit depth is looked up as an integer and
  compared as a string.
\<close>

definition label_dtype :: "args \<Rightarrow> error + dtype" where
  "label_dtype a =
     (case py_int (label_bits a) of
        Inl e \<Rightarrow> Inl e
      | Inr bits \<Rightarrow>
          (case MASK_DTYPE_SIZE bits of
             None \<Rightarrow> Inl KeyError
           | Some dtype \<Rightarrow>
               if style a = ''labeled'' \<and> label_bits a = ''1''
               then Inr (the (MASK_DTYPE_SIZE 64)) else Inr dtype))"

text \<open>
  \<^verbatim>\<open>image_masks_to_zarr\<close>, on the group that the saver opens. An exception of a
  \<^verbatim>\<open>save\<close> ends the function; what the calls before it have written stays.
\<close>

definition image_masks_to_zarr ::
  "image \<Rightarrow> roi list \<Rightarrow> args \<Rightarrow> label_group \<Rightarrow> (error \<times> label_group) + label_group" where
  "image_masks_to_zarr img rois a out_labels =
     (let masks = collect_masks rois []
      in case label_dtype a of
           Inl e \<Rightarrow> Inl (e, out_labels)
         | Inr dtype \<Rightarrow>
             if masks = [] then Inr out_labels
             else
               let saver = saver_of img dtype (style a)
               in if style a = ''split'' then
                    for_each (\<lambda>(roi_id, roi). save saver [roi] (str_int roi_id))
                      masks out_labels
                  else
                    (case label_map a of
                       Some lines \<Rightarrow>
                         for_each (\<lambda>(name, vals). save saver vals name)
                           (snd (read_label_map masks lines [])) out_labels
                     | None \<Rightarrow> save saver (map snd masks) (label_name a) out_labels))"

section \<open>Reference definitions\<close>

text \<open>
  The bit of a packed buffer that the decoder is specified to put at position \<open>k\<close> of
  the unpacked sequence: bit 7 of byte 0 is element 0.
\<close>

definition bit_of_buffer :: "8 word list \<Rightarrow> nat \<Rightarrow> int" where
  "bit_of_buffer bs k = (if bit (bs ! (k div 8)) (7 - k mod 8) then 1 else 0)"

text \<open>
  The planes a mask is specified to be written to: the Cartesian product of the index
  lists of T, C and Z, in the order of the nested loops.
\<close>

definition broadcast_planes ::
  "char set \<Rightarrow> nat \<times> nat \<times> nat \<Rightarrow> int option \<times> int option \<times> int option
     \<Rightarrow> (int \<times> int \<times> int) list" where
  "broadcast_planes ignored_dimensions sizes tcz =
     (case sizes of (st, sc, sz) \<Rightarrow>
      case tcz of (t, c, z) \<Rightarrow>
        List.product (get_indices ignored_dimensions CHR ''T'' t st)
          (List.product (get_indices ignored_dimensions CHR ''C'' c sc)
             (get_indices ignored_dimensions CHR ''Z'' z sz)))"

text \<open>
  The cells of a label array that a mask is specified to mark: in every plane of its
  broadcast, the pixels of its rectangle whose bit is set. A cell is the tuple of a plane
  \<open>(t, c, z)\<close>, a row and a column.
\<close>

type_synonym cell = "(nat \<times> nat \<times> nat) \<times> nat \<times> nat"

definition cell_at :: "label_array \<Rightarrow> cell \<Rightarrow> int" where
  "cell_at a q = cells a (fst q) (fst (snd q)) (snd (snd q))"

definition footprint :: "plane \<Rightarrow> int \<Rightarrow> int \<Rightarrow> nat \<times> nat \<times> nat \<Rightarrow> cell list" where
  "footprint binim y x p =
     concat (map (\<lambda>i. concat (map (\<lambda>j.
         if plane_at binim i j = 0 then [] else [(p, nat y + i, nat x + j)])
       [0..<ncols binim])) [0..<nrows binim])"

definition mask_cells :: "char set \<Rightarrow> nat \<times> nat \<times> nat \<Rightarrow> mask \<Rightarrow> cell list" where
  "mask_cells ignored_dimensions sizes m =
     (case mask_to_binim_yx m of
        Inl e \<Rightarrow> []
      | Inr (binim, (t, c, z, y, x, h, w)) \<Rightarrow>
          concat (map (\<lambda>(i_t, i_c, i_z). footprint binim y x (nat i_t, nat i_c, nat i_z))
                    (broadcast_planes ignored_dimensions sizes (t, c, z))))"

definition roi_cells :: "char set \<Rightarrow> nat \<times> nat \<times> nat \<Rightarrow> mask list \<Rightarrow> cell list" where
  "roi_cells ignored_dimensions sizes shapes =
     concat (map (mask_cells ignored_dimensions sizes) shapes)"

text \<open>Lists of cells that are pairwise disjoint as sets.\<close>

fun disjoint_family :: "'a list list \<Rightarrow> bool" where
  "disjoint_family [] = True"
| "disjoint_family (cs # css) =
     (list_all (\<lambda>ds. set cs \<inter> set ds = {}) css \<and> disjoint_family css)"

text \<open>
  A mask that fits the array: its rectangle lies inside the Y and X extents, its buffer
  holds at least \<open>width * height\<close> bits, and a value it declares on an axis that is not
  collapsed is an index of that axis.
\<close>

definition axis_in_bounds :: "char set \<Rightarrow> char \<Rightarrow> int option \<Rightarrow> nat \<Rightarrow> bool" where
  "axis_in_bounds ignored_dimensions d v n =
     (if d \<in> ignored_dimensions then True
      else case v of None \<Rightarrow> True | Some i \<Rightarrow> 0 \<le> i \<and> i < int n)"

definition mask_in_bounds :: "char set \<Rightarrow> shape5 \<Rightarrow> mask \<Rightarrow> bool" where
  "mask_in_bounds ignored_dimensions shp m =
     (case shp of (st, sc, sz, sy, sx) \<Rightarrow>
        axis_in_bounds ignored_dimensions CHR ''T'' (theT m) st \<and>
        axis_in_bounds ignored_dimensions CHR ''C'' (theC m) sc \<and>
        axis_in_bounds ignored_dimensions CHR ''Z'' (theZ m) sz \<and>
        0 \<le> mask_x m \<and> 0 \<le> mask_width m \<and> mask_x m + mask_width m \<le> int sx \<and>
        0 \<le> mask_y m \<and> 0 \<le> mask_height m \<and> mask_y m + mask_height m \<le> int sy \<and>
        mask_width m * mask_height m \<le> 8 * int (length (mask_bytes m)))"

text \<open>The largest value of each type.\<close>

fun dtype_max :: "dtype \<Rightarrow> int" where
  "dtype_max Bool = 1"
| "dtype_max Int8 = 127"
| "dtype_max Int16 = 32767"
| "dtype_max Int32 = 2147483647"
| "dtype_max Int64 = 9223372036854775807"

section \<open>Properties of the decoder\<close>

lemma length_unpack_byte: "length (unpack_byte b) = 8"
  by (simp add: unpack_byte_def)

lemma length_unpackbits: "length (unpackbits bs) = 8 * length bs"
  by (induction bs) (simp_all add: unpackbits_def length_unpack_byte)

lemma set_unpackbits: "set (unpackbits bs) \<subseteq> {0, 1}"
  by (auto simp: unpackbits_def unpack_byte_def split: if_splits)

lemma lt8_cases:
  "(k::nat) < 8 \<Longrightarrow> k = 0 \<or> k = 1 \<or> k = 2 \<or> k = 3 \<or> k = 4 \<or> k = 5 \<or> k = 6 \<or> k = 7"
  by arith

lemma unpack_byte_nth:
  assumes "k < 8"
  shows "unpack_byte b ! k = (if bit b (7 - k) then 1 else 0)"
proof -
  from lt8_cases [OF assms] show ?thesis
    unfolding unpack_byte_def by (elim disjE) simp_all
qed

lemma unpackbits_Cons: "unpackbits (b # bs) = unpack_byte b @ unpackbits bs"
  by (simp add: unpackbits_def)

lemma unpackbits_nth:
  "k < 8 * length bs \<Longrightarrow>
     unpackbits bs ! k = (if bit (bs ! (k div 8)) (7 - k mod 8) then 1 else 0)"
proof (induction bs arbitrary: k)
  case Nil
  then show ?case by simp
next
  case (Cons b bs)
  show ?case
  proof (cases "k < 8")
    case True
    then show ?thesis
      by (simp add: unpackbits_Cons nth_append length_unpack_byte unpack_byte_nth)
  next
    case False
    then obtain k' where k: "k = k' + 8"
      by (metis le_add_diff_inverse2 not_less)
    have lt: "k' < 8 * length bs"
      using Cons.prems k by simp
    have d: "(k' + 8) div 8 = Suc (k' div 8)" and m: "(k' + 8) mod 8 = k' mod 8"
      by simp_all
    have "unpackbits (b # bs) ! k = unpackbits bs ! k'"
      by (simp add: k unpackbits_Cons nth_append length_unpack_byte)
    also have "\<dots> = (if bit (bs ! (k' div 8)) (7 - k' mod 8) then 1 else 0)"
      by (rule Cons.IH [OF lt])
    finally show ?thesis
      by (simp only: k d m nth_Cons_Suc)
  qed
qed

text \<open>
  Claim C6. For a mask whose width and height are not negative and whose buffer holds at
  least \<open>width * height\<close> bits, the decoder returns the plane of \<open>height\<close> rows and
  \<open>width\<close> columns that holds the first \<open>width * height\<close> unpacked bits in row-major
  order, bit 7 of byte 0 first, together with the tuple \<open>(t, c, z, y, x, h, w)\<close>. The
  buffer \<open>0xF0\<close> with width 4 and height 2 yields \<open>[[1,1,1,1],[0,0,0,0]]\<close>.
\<close>

theorem decode_plane:
  assumes "0 \<le> mask_width m" and "0 \<le> mask_height m"
    and "mask_width m * mask_height m \<le> 8 * int (length (mask_bytes m))"
  shows "\<exists>pl. mask_to_binim_yx m =
            Inr (pl, (theT m, theC m, theZ m, mask_y m, mask_x m, mask_height m, mask_width m))
          \<and> nrows pl = nat (mask_height m) \<and> ncols pl = nat (mask_width m)
          \<and> pbits pl = take (nat (mask_width m * mask_height m)) (unpackbits (mask_bytes m))
          \<and> plane_rows pl =
              map (\<lambda>i. map (\<lambda>j. bit_of_buffer (mask_bytes m) (i * nat (mask_width m) + j))
                             [0..<nat (mask_width m)]) [0..<nat (mask_height m)]"
proof -
  let ?w = "mask_width m" and ?h = "mask_height m"
  let ?bits = "unpackbits (mask_bytes m)"
  let ?pl = "\<lparr>nrows = nat ?h, ncols = nat ?w, pbits = take (nat (?w * ?h)) ?bits\<rparr>"
  have nn: "0 \<le> ?w * ?h" using assms by simp
  have le8: "nat (?w * ?h) \<le> 8 * length (mask_bytes m)"
    using assms(3) by (simp add: nat_le_iff)
  have "length (take (nat (?w * ?h)) ?bits) = nat (?w * ?h)"
    using le8 by (simp add: length_unpackbits)
  then have len: "int (length (take (nat (?w * ?h)) ?bits)) = ?h * ?w"
    using nn by (simp add: mult.commute)
  have sl: "slice_to ?bits (?w * ?h) = take (nat (?w * ?h)) ?bits"
    using nn by (simp add: slice_to_def)
  have rs: "np_reshape (take (nat (?w * ?h)) ?bits) ?h ?w = Inr ?pl"
    using assms len unfolding np_reshape_def Let_def by simp
  have dec: "mask_to_binim_yx m =
      Inr (?pl, (theT m, theC m, theZ m, mask_y m, mask_x m, ?h, ?w))"
    by (simp add: mask_to_binim_yx_def Let_def sl rs)
  have cell: "plane_at ?pl i j = bit_of_buffer (mask_bytes m) (i * nat ?w + j)"
    if "i < nat ?h" and "j < nat ?w" for i j
  proof -
    have "i * nat ?w + j < nat ?h * nat ?w"
    proof -
      have "i * nat ?w + j < i * nat ?w + nat ?w" using that by simp
      also have "\<dots> = Suc i * nat ?w" by simp
      also have "\<dots> \<le> nat ?h * nat ?w" using that by (intro mult_le_mono1) simp
      finally show ?thesis .
    qed
    moreover have "nat ?h * nat ?w = nat (?w * ?h)"
      using assms by (simp add: nat_mult_distrib mult.commute)
    ultimately have lt: "i * nat ?w + j < nat (?w * ?h)" by simp
    then have lt8: "i * nat ?w + j < 8 * length (mask_bytes m)" using le8 by linarith
    show ?thesis
      using lt lt8 by (simp add: plane_at_def bit_of_buffer_def unpackbits_nth)
  qed
  have rows: "plane_rows ?pl =
      map (\<lambda>i. map (\<lambda>j. bit_of_buffer (mask_bytes m) (i * nat ?w + j)) [0..<nat ?w]) [0..<nat ?h]"
    unfolding plane_rows_def using cell by simp
  show ?thesis
    using dec rows by simp
qed



theorem decode_plane_witness:
  "0 \<le> mask_width \<lparr>theT = None, theC = None, theZ = None, mask_x = 0, mask_y = 0,
       mask_width = 4, mask_height = 2, mask_bytes = [0xF0]\<rparr>
   \<and> (\<exists>pl s. mask_to_binim_yx \<lparr>theT = None, theC = None, theZ = None, mask_x = 0, mask_y = 0,
       mask_width = 4, mask_height = 2, mask_bytes = [0xF0]\<rparr> = Inr (pl, s)
       \<and> plane_rows pl = [[1, 1, 1, 1], [0, 0, 0, 0]])"
proof -
  let ?m = "\<lparr>theT = None, theC = None, theZ = None, mask_x = 0, mask_y = 0,
       mask_width = 4, mask_height = 2, mask_bytes = [0xF0 :: 8 word]\<rparr>"
  have rows: "map (\<lambda>i. map (\<lambda>j. bit_of_buffer [0xF0] (i * nat 4 + j)) [0..<nat 4]) [0..<nat 2]
      = [[1, 1, 1, 1], [0, 0, 0, 0]]"
    by code_simp
  have h1: "0 \<le> mask_width ?m" and h2: "0 \<le> mask_height ?m"
    and h3: "mask_width ?m * mask_height ?m \<le> 8 * int (length (mask_bytes ?m))"
    by simp_all
  from decode_plane [OF h1 h2 h3] obtain pl where
    dec: "mask_to_binim_yx ?m = Inr (pl, (theT ?m, theC ?m, theZ ?m, mask_y ?m, mask_x ?m,
            mask_height ?m, mask_width ?m))"
    and pr: "plane_rows pl = map (\<lambda>i. map (\<lambda>j. bit_of_buffer (mask_bytes ?m)
               (i * nat (mask_width ?m) + j)) [0..<nat (mask_width ?m)]) [0..<nat (mask_height ?m)]"
    by blast
  have "plane_rows pl = [[1, 1, 1, 1], [0, 0, 0, 0]]"
    using pr rows by simp
  with dec h1 show ?thesis by blast
qed


text \<open>
  Claim C9, amended. For every mask whose buffer holds fewer than \<open>width * height\<close>
  bits, decoding raises \<^verbatim>\<open>ValueError\<close> and produces no plane.
\<close>

theorem short_buffer_raises:
  assumes "8 * int (length (mask_bytes m)) < mask_width m * mask_height m"
  shows "mask_to_binim_yx m = Inl ValueError"
proof -
  let ?w = "mask_width m" and ?h = "mask_height m"
  let ?bits = "unpackbits (mask_bytes m)"
  have pos: "0 < ?w * ?h" using assms by linarith
  have len: "int (length ?bits) < ?w * ?h"
    using assms by (simp add: length_unpackbits)
  have sl: "slice_to ?bits (?w * ?h) = ?bits"
    using len pos by (simp add: slice_to_def)
  have neq: "?h * ?w \<noteq> int (length ?bits)"
    using len by (simp add: mult.commute)
  have hw: "\<not> (?h = - 1 \<and> 0 \<le> ?w)" "\<not> (?w = - 1 \<and> 0 \<le> ?h)"
  proof -
    show "\<not> (?h = - 1 \<and> 0 \<le> ?w)"
    proof
      assume a: "?h = - 1 \<and> 0 \<le> ?w"
      then have "?w * ?h = - ?w" by simp
      with a pos show False by simp
    qed
    show "\<not> (?w = - 1 \<and> 0 \<le> ?h)"
    proof
      assume a: "?w = - 1 \<and> 0 \<le> ?h"
      then have "?w * ?h = - ?h" by simp
      with a pos show False by simp
    qed
  qed
  have "np_reshape ?bits ?h ?w = Inl ValueError"
    unfolding np_reshape_def Let_def using neq hw by auto
  then show ?thesis by (simp add: mask_to_binim_yx_def Let_def sl)
qed

text \<open>
  Claim C9 says that a buffer with fewer than \<open>width * height\<close> bits is truncated
  silently into a partial plane. For the one-byte buffer \<open>0xF0\<close> with width 4 and height
  4 the decoder raises \<^verbatim>\<open>ValueError\<close>: \<^verbatim>\<open>np.reshape\<close> refuses the 8 elements for
  the shape \<open>(4, 4)\<close>.
\<close>

theorem short_buffer_counterexample:
  "8 * int (length (mask_bytes \<lparr>theT = None, theC = None, theZ = None, mask_x = 0, mask_y = 0,
       mask_width = 4, mask_height = 4, mask_bytes = [0xF0]\<rparr>)) < 4 * 4
   \<and> mask_to_binim_yx \<lparr>theT = None, theC = None, theZ = None, mask_x = 0, mask_y = 0,
       mask_width = 4, mask_height = 4, mask_bytes = [0xF0]\<rparr> = Inl ValueError"
  by code_simp

theorem short_buffer_raises_witness:
  "8 * int (length (mask_bytes \<lparr>theT = None, theC = None, theZ = None, mask_x = 0, mask_y = 0,
       mask_width = 3, mask_height = 3, mask_bytes = [0xFF]\<rparr>)) < 3 * 3
   \<and> mask_to_binim_yx \<lparr>theT = None, theC = None, theZ = None, mask_x = 0, mask_y = 0,
       mask_width = 3, mask_height = 3, mask_bytes = [0xFF]\<rparr> = Inl ValueError"
  using short_buffer_raises [of "\<lparr>theT = None, theC = None, theZ = None, mask_x = 0, mask_y = 0,
       mask_width = 3, mask_height = 3, mask_bytes = [0xFF]\<rparr>"]
  by simp

section \<open>Properties of the loops\<close>

lemma for_each_append:
  "for_each body (vs @ ws) s =
     (case for_each body vs s of Inl e \<Rightarrow> Inl e | Inr s' \<Rightarrow> for_each body ws s')"
  by (induction vs arbitrary: s) (simp_all split: sum.splits)

lemma for_each_map:
  "for_each body (map f vs) s = for_each (\<lambda>v. body (f v)) vs s"
  by (induction vs arbitrary: s) (simp_all split: sum.splits)

lemma for_each_product:
  "for_each (\<lambda>a. for_each (\<lambda>b. body (a, b)) ws) vs s = for_each body (List.product vs ws) s"
  by (induction vs arbitrary: s) (simp_all add: for_each_append for_each_map split: sum.splits)

lemma for_each_product3:
  "for_each (\<lambda>a. for_each (\<lambda>b. for_each (\<lambda>c. body (a, b, c)) us) ws) vs s =
     for_each body (List.product vs (List.product ws us)) s"
proof -
  have inner: "for_each (\<lambda>b. for_each (\<lambda>c. body (a, b, c)) us) ws =
      for_each (\<lambda>bc. body (a, bc)) (List.product ws us)" for a
  proof (rule ext)
    fix s'
    show "for_each (\<lambda>b. for_each (\<lambda>c. body (a, b, c)) us) ws s' =
        for_each (\<lambda>bc. body (a, bc)) (List.product ws us) s'"
      using for_each_product [of "\<lambda>bc. body (a, bc)" us ws s'] by simp
  qed
  show ?thesis
    unfolding inner by (rule for_each_product)
qed

lemma label_mask_planes:
  "label_mask chk ign (st, sc, sz) count m labels =
     (case mask_to_binim_yx m of
        Inl e \<Rightarrow> Inl (e, labels)
      | Inr (binim, (t, c, z, y, x, h, w)) \<Rightarrow>
          for_each (label_plane chk count binim y x h w)
            (broadcast_planes ign (st, sc, sz) (t, c, z)) labels)"
proof (cases "mask_to_binim_yx m")
  case (Inl e)
  then show ?thesis by (simp add: label_mask_def)
next
  case (Inr r)
  obtain binim t c z y x h w where r: "r = (binim, (t, c, z, y, x, h, w))"
    by (cases r) auto
  show ?thesis
    unfolding label_mask_def broadcast_planes_def Inr r
    by (simp add: for_each_product3 [of "label_plane chk count binim y x h w"])
qed

text \<open>
  Claim C5. \<^verbatim>\<open>_get_indices\<close> returns \<open>[0]\<close> for a collapsed axis, whatever value is
  declared, the declared value alone for an axis that is not collapsed, and all indices
  of the axis when the axis is not collapsed and no value is declared. The three nested
  loops of \<^verbatim>\<open>masks_to_labels\<close> run the plane writer over exactly the Cartesian product of
  the three lists, whose length is the product of the three lengths.
\<close>

theorem get_indices_broadcast:
  "(d \<in> ign \<longrightarrow> get_indices ign d v n = [0]) \<and>
   (d \<notin> ign \<longrightarrow> get_indices ign d (Some i) n = [i]) \<and>
   (d \<notin> ign \<longrightarrow> get_indices ign d None n = map int [0..<n]) \<and>
   label_mask chk ign (st, sc, sz) count m labels =
     (case mask_to_binim_yx m of
        Inl e \<Rightarrow> Inl (e, labels)
      | Inr (binim, (t, c, z, y, x, h, w)) \<Rightarrow>
          for_each (label_plane chk count binim y x h w)
            (broadcast_planes ign (st, sc, sz) (t, c, z)) labels) \<and>
   length (broadcast_planes ign (st, sc, sz) (t', c', z')) =
     length (get_indices ign CHR ''T'' t' st) * length (get_indices ign CHR ''C'' c' sc)
       * length (get_indices ign CHR ''Z'' z' sz)"
  using label_mask_planes [of chk ign st sc sz count m labels]
  by (simp add: get_indices_def broadcast_planes_def)


theorem get_indices_broadcast_witness:
  "get_indices {CHR ''Z''} CHR ''Z'' (Some 5) 4 = [0] \<and>
   get_indices {CHR ''Z''} CHR ''T'' (Some 2) 4 = [2] \<and>
   get_indices {CHR ''Z''} CHR ''C'' None 3 = [0, 1, 2] \<and>
   label_mask True {CHR ''Z''} (4, 3, 1) 0
       \<lparr>theT = Some 2, theC = None, theZ = None, mask_x = 0, mask_y = 0,
          mask_width = 4, mask_height = 2, mask_bytes = [0xF0]\<rparr>
       (zeros (4, 3, 1) 2 4 Int64) =
     for_each (label_plane True 0 \<lparr>nrows = 2, ncols = 4, pbits = [1, 1, 1, 1, 0, 0, 0, 0]\<rparr> 0 0 2 4)
       [(2, 0, 0), (2, 1, 0), (2, 2, 0)] (zeros (4, 3, 1) 2 4 Int64) \<and>
   length (broadcast_planes {CHR ''Z''} (4, 3, 1) (Some 2, None, None)) = 3"
proof -
  let ?m = "\<lparr>theT = Some 2, theC = None, theZ = None, mask_x = 0, mask_y = 0,
          mask_width = 4, mask_height = 2, mask_bytes = [0xF0 :: 8 word]\<rparr>"
  let ?ign = "{CHR ''Z''}"
  note th = get_indices_broadcast [of _ ?ign _ _ _ True 4 3 1 0 ?m "zeros (4, 3, 1) 2 4 Int64"
      "Some 2" None None]
  have upt3: "[0..<3] = [0, 1, 2]" by code_simp
  have dec: "mask_to_binim_yx ?m =
      Inr (\<lparr>nrows = 2, ncols = 4, pbits = [1, 1, 1, 1, 0, 0, 0, 0]\<rparr>, (Some 2, None, None, 0, 0, 2, 4))"
    by code_simp
  have bp: "broadcast_planes ?ign (4, 3, 1) (Some 2, None, None) = [(2, 0, 0), (2, 1, 0), (2, 2, 0)]"
    by (simp add: broadcast_planes_def get_indices_def upt3)
  have a: "get_indices ?ign CHR ''Z'' (Some 5) 4 = [0]"
    using th [of "CHR ''Z''" "Some 5" 4 0, THEN conjunct1] by simp
  have b: "get_indices ?ign CHR ''T'' (Some 2) 4 = [2]"
    using th [of "CHR ''T''" None 4 2, THEN conjunct2, THEN conjunct1] by simp
  have c: "get_indices ?ign CHR ''C'' None 3 = [0, 1, 2]"
    using th [of "CHR ''C''" None 3 0, THEN conjunct2, THEN conjunct2, THEN conjunct1]
    by (simp add: upt3)
  have d: "label_mask True ?ign (4, 3, 1) 0 ?m (zeros (4, 3, 1) 2 4 Int64) =
     for_each (label_plane True 0 \<lparr>nrows = 2, ncols = 4, pbits = [1, 1, 1, 1, 0, 0, 0, 0]\<rparr> 0 0 2 4)
       [(2, 0, 0), (2, 1, 0), (2, 2, 0)] (zeros (4, 3, 1) 2 4 Int64)"
    using th [of "CHR ''C''" None 3 0, THEN conjunct2, THEN conjunct2, THEN conjunct2, THEN conjunct1]
    by (simp only: dec bp sum.case prod.case)
  have e: "length (broadcast_planes ?ign (4, 3, 1) (Some 2, None, None)) = 3"
    using th [of "CHR ''C''" None 3 0, THEN conjunct2, THEN conjunct2, THEN conjunct2, THEN conjunct2]
    by (simp add: get_indices_def)
  from a b c d e show ?thesis by (intro conjI)
qed

section \<open>Properties of \<^verbatim>\<open>save\<close>\<close>

lemma set_map_eq_None:
  "set (map f ms) = {None} \<longleftrightarrow> ms \<noteq> [] \<and> (\<forall>m\<in>set ms. f m = None)"
  by (cases ms) auto

lemma ignored_dims_mem:
  "CHR ''T'' \<in> set (ignored_dims masks) \<longleftrightarrow> set (map theT (concat masks)) = {None}"
  "CHR ''C'' \<in> set (ignored_dims masks) \<longleftrightarrow> set (map theC (concat masks)) = {None}"
  "CHR ''Z'' \<in> set (ignored_dims masks) \<longleftrightarrow> set (map theZ (concat masks)) = {None}"
  by (simp_all add: ignored_dims_def unique_dims_def)

lemma collapse_axes_filter:
  "collapse_axes (filter P ''TCZ'') (t, c, z, y, x) None =
     (if P CHR ''T'' \<or> P CHR ''C'' \<or> P CHR ''Z''
      then Some (if P CHR ''T'' then 1 else t, if P CHR ''C'' then 1 else c,
                 if P CHR ''Z'' then 1 else z, y, x)
      else None)"
  by (simp add: set_axis_1_def DIMENSION_ORDER_def)

lemma collapse_axes_ignored_dims:
  "collapse_axes (ignored_dims masks) (t, c, z, y, x) None =
     (if ignored_dims masks = [] then None
      else Some (if CHR ''T'' \<in> set (ignored_dims masks) then 1 else t,
                 if CHR ''C'' \<in> set (ignored_dims masks) then 1 else c,
                 if CHR ''Z'' \<in> set (ignored_dims masks) then 1 else z, y, x))"
  unfolding ignored_dims_def collapse_axes_filter by simp

text \<open>
  Claim C4 says that an axis is collapsed exactly when every mask of the grouping leaves
  it unspecified. The grouping without any mask has no mask that declares T, and T is
  not collapsed: the set of declared values is empty, not \<^verbatim>\<open>{None}\<close>.
\<close>

theorem empty_grouping_counterexample:
  "concat ([] :: mask list list) = [] \<and> CHR ''T'' \<notin> set (ignored_dims [])"
  by (simp add: ignored_dims_def unique_dims_def)

text \<open>
  Claim C4, amended. For every grouping with at least one mask, each of the axes T, C
  and Z is collapsed if and only if every mask of the grouping leaves it unspecified; no
  other axis is collapsed; and in the shape that \<^verbatim>\<open>save\<close> computes a collapsed axis has
  extent 1 and every other axis the extent of the image.
\<close>

theorem collapsed_iff_all_unspecified:
  assumes "concat masks \<noteq> []"
  shows "(CHR ''T'' \<in> set (ignored_dims masks) \<longleftrightarrow> (\<forall>m\<in>set (concat masks). theT m = None)) \<and>
         (CHR ''C'' \<in> set (ignored_dims masks) \<longleftrightarrow> (\<forall>m\<in>set (concat masks). theC m = None)) \<and>
         (CHR ''Z'' \<in> set (ignored_dims masks) \<longleftrightarrow> (\<forall>m\<in>set (concat masks). theZ m = None)) \<and>
         set (ignored_dims masks) \<subseteq> {CHR ''T'', CHR ''C'', CHR ''Z''} \<and>
         (\<forall>ms. collapse_axes (ignored_dims masks) (t, c, z, y, x) None = Some ms \<longrightarrow>
            ms = (if \<forall>m\<in>set (concat masks). theT m = None then 1 else t,
                  if \<forall>m\<in>set (concat masks). theC m = None then 1 else c,
                  if \<forall>m\<in>set (concat masks). theZ m = None then 1 else z, y, x))"
proof -
  have T: "CHR ''T'' \<in> set (ignored_dims masks) \<longleftrightarrow> (\<forall>m\<in>set (concat masks). theT m = None)"
    using assms by (simp only: ignored_dims_mem set_map_eq_None) simp
  have C: "CHR ''C'' \<in> set (ignored_dims masks) \<longleftrightarrow> (\<forall>m\<in>set (concat masks). theC m = None)"
    using assms by (simp only: ignored_dims_mem set_map_eq_None) simp
  have Z: "CHR ''Z'' \<in> set (ignored_dims masks) \<longleftrightarrow> (\<forall>m\<in>set (concat masks). theZ m = None)"
    using assms by (simp only: ignored_dims_mem set_map_eq_None) simp
  have sub: "set (ignored_dims masks) \<subseteq> {CHR ''T'', CHR ''C'', CHR ''Z''}"
    by (auto simp: ignored_dims_def)
  have shape0: "ms = (if CHR ''T'' \<in> set (ignored_dims masks) then 1 else t,
                  if CHR ''C'' \<in> set (ignored_dims masks) then 1 else c,
                  if CHR ''Z'' \<in> set (ignored_dims masks) then 1 else z, y, x)"
    if "collapse_axes (ignored_dims masks) (t, c, z, y, x) None = Some ms" for ms
    using that by (auto simp: collapse_axes_ignored_dims split: if_splits)
  have shape: "ms = (if \<forall>m\<in>set (concat masks). theT m = None then 1 else t,
                  if \<forall>m\<in>set (concat masks). theC m = None then 1 else c,
                  if \<forall>m\<in>set (concat masks). theZ m = None then 1 else z, y, x)"
    if "collapse_axes (ignored_dims masks) (t, c, z, y, x) None = Some ms" for ms
    using shape0 [OF that] by (simp only: T C Z)
  from T C Z sub shape show ?thesis by blast
qed


theorem collapsed_iff_all_unspecified_witness:
  "concat [[\<lparr>theT = Some 2, theC = None, theZ = None, mask_x = 0, mask_y = 0,
              mask_width = 1, mask_height = 1, mask_bytes = [0x80]\<rparr>],
           [\<lparr>theT = None, theC = Some 0, theZ = None, mask_x = 1, mask_y = 0,
              mask_width = 1, mask_height = 1, mask_bytes = [0x80]\<rparr>]] \<noteq> [] \<and>
   CHR ''T'' \<notin> set (ignored_dims
          [[\<lparr>theT = Some 2, theC = None, theZ = None, mask_x = 0, mask_y = 0,
              mask_width = 1, mask_height = 1, mask_bytes = [0x80]\<rparr>],
           [\<lparr>theT = None, theC = Some 0, theZ = None, mask_x = 1, mask_y = 0,
              mask_width = 1, mask_height = 1, mask_bytes = [0x80]\<rparr>]]) \<and>
   CHR ''C'' \<notin> set (ignored_dims
          [[\<lparr>theT = Some 2, theC = None, theZ = None, mask_x = 0, mask_y = 0,
              mask_width = 1, mask_height = 1, mask_bytes = [0x80]\<rparr>],
           [\<lparr>theT = None, theC = Some 0, theZ = None, mask_x = 1, mask_y = 0,
              mask_width = 1, mask_height = 1, mask_bytes = [0x80]\<rparr>]]) \<and>
   CHR ''Z'' \<in> set (ignored_dims
          [[\<lparr>theT = Some 2, theC = None, theZ = None, mask_x = 0, mask_y = 0,
              mask_width = 1, mask_height = 1, mask_bytes = [0x80]\<rparr>],
           [\<lparr>theT = None, theC = Some 0, theZ = None, mask_x = 1, mask_y = 0,
              mask_width = 1, mask_height = 1, mask_bytes = [0x80]\<rparr>]]) \<and>
   collapse_axes (ignored_dims
          [[\<lparr>theT = Some 2, theC = None, theZ = None, mask_x = 0, mask_y = 0,
              mask_width = 1, mask_height = 1, mask_bytes = [0x80]\<rparr>],
           [\<lparr>theT = None, theC = Some 0, theZ = None, mask_x = 1, mask_y = 0,
              mask_width = 1, mask_height = 1, mask_bytes = [0x80]\<rparr>]]) (5, 3, 7, 10, 10) None =
     Some (5, 3, 1, 10, 10)"
proof -
  let ?masks = "[[\<lparr>theT = Some 2, theC = None, theZ = None, mask_x = 0, mask_y = 0,
              mask_width = 1, mask_height = 1, mask_bytes = [0x80 :: 8 word]\<rparr>],
           [\<lparr>theT = None, theC = Some 0, theZ = None, mask_x = 1, mask_y = 0,
              mask_width = 1, mask_height = 1, mask_bytes = [0x80]\<rparr>]]"
  have ne: "concat ?masks \<noteq> []" by simp
  note th = collapsed_iff_all_unspecified [OF ne, of 5 3 7 10 10]
  have T: "CHR ''T'' \<notin> set (ignored_dims ?masks)"
    using th [THEN conjunct1] by simp
  have C: "CHR ''C'' \<notin> set (ignored_dims ?masks)"
    using th [THEN conjunct2, THEN conjunct1] by simp
  have Z: "CHR ''Z'' \<in> set (ignored_dims ?masks)"
    using th [THEN conjunct2, THEN conjunct2, THEN conjunct1] by simp
  have "ignored_dims ?masks \<noteq> []" using Z by auto
  then obtain ms where ms: "collapse_axes (ignored_dims ?masks) (5, 3, 7, 10, 10) None = Some ms"
    by (auto simp: collapse_axes_ignored_dims)
  have "ms = (5, 3, 1, 10, 10)"
    using th [THEN conjunct2, THEN conjunct2, THEN conjunct2, THEN conjunct2, rule_format, OF ms]
    by simp
  with ms ne T C Z show ?thesis by simp
qed

section \<open>Evaluations of \<^verbatim>\<open>save\<close>\<close>

text \<open>
  Claim C3, at a grouping whose only mask declares T, C and Z: no axis is collapsed, the
  loop that assigns \<^verbatim>\<open>mask_shape\<close> does not run, and \<^verbatim>\<open>save\<close> raises
  \<^verbatim>\<open>UnboundLocalError\<close> before it creates an array, in the style "labeled" and in the
  style "6d".
\<close>

theorem save_without_collapsed_axis:
  "save \<lparr>saver_dtype = Int64, saver_style = ''labeled'', size_t = 1, size_c = 1, size_z = 1,
          size_y = 2, size_x = 2, source_ok = True\<rparr>
        [[\<lparr>theT = Some 0, theC = Some 0, theZ = Some 0, mask_x = 0, mask_y = 0,
            mask_width = 2, mask_height = 2, mask_bytes = [0xF0]\<rparr>]]
        ''0'' \<lparr>datasets = Map.empty, labels_attr = []\<rparr>
     = Inl (UnboundLocalError, \<lparr>datasets = Map.empty, labels_attr = []\<rparr>) \<and>
   save \<lparr>saver_dtype = Int64, saver_style = ''6d'', size_t = 1, size_c = 1, size_z = 1,
          size_y = 2, size_x = 2, source_ok = True\<rparr>
        [[\<lparr>theT = Some 0, theC = Some 0, theZ = Some 0, mask_x = 0, mask_y = 0,
            mask_width = 2, mask_height = 2, mask_bytes = [0xF0]\<rparr>]]
        ''0'' \<lparr>datasets = Map.empty, labels_attr = []\<rparr>
     = Inl (UnboundLocalError, \<lparr>datasets = Map.empty, labels_attr = []\<rparr>)"
  by (simp add: save_def ignored_dims_def unique_dims_def)

text \<open>
  Claim C7, at a group of two masks of one plane with the rectangles \<open>[0:2, 0:2]\<close> and
  \<open>[1:3, 1:3]\<close>, which overlap at the pixel \<open>(1, 1)\<close>: \<^verbatim>\<open>save\<close> in the style "6d" passes
  \<^verbatim>\<open>check_overlaps=True\<close>, \<^verbatim>\<open>stack_masks\<close> never reads it, the write succeeds and
  the pixel holds the sum 2.
\<close>

theorem stack_masks_sums_overlap:
  "(case save \<lparr>saver_dtype = Int64, saver_style = ''6d'', size_t = 1, size_c = 1, size_z = 1,
                size_y = 3, size_x = 3, source_ok = True\<rparr>
          [[\<lparr>theT = None, theC = None, theZ = Some 0, mask_x = 0, mask_y = 0,
              mask_width = 2, mask_height = 2, mask_bytes = [0xF0]\<rparr>,
            \<lparr>theT = None, theC = None, theZ = Some 0, mask_x = 1, mask_y = 1,
              mask_width = 2, mask_height = 2, mask_bytes = [0xF0]\<rparr>]]
          ''0'' \<lparr>datasets = Map.empty, labels_attr = []\<rparr> of
      Inl (e, g) \<Rightarrow> False
    | Inr g \<Rightarrow>
        (case datasets g ''0'' of
           Some (StackArray a) \<Rightarrow>
             cells a (0, 0, 0, 0) 0 0 = 1 \<and> cells a (0, 0, 0, 0) 1 1 = 2 \<and>
             cells a (0, 0, 0, 0) 2 2 = 1 \<and> labels_attr g = [''0'']
         | _ \<Rightarrow> False))"
  by code_simp

section \<open>The overlap guard of \<^verbatim>\<open>masks_to_labels\<close>\<close>

lemma for_enumerate_append:
  "for_enumerate body count (vs @ ws) s =
     (case for_enumerate body count vs s of
        Inl e \<Rightarrow> Inl e
      | Inr s' \<Rightarrow> for_enumerate body (count + length vs) ws s')"
  by (induction vs arbitrary: count s) (simp_all split: sum.splits)

lemma label_plane_overlap:
  assumes "norm_tcz (lead a) p = Inr q"
    and "region_overlaps a q (slice_bounds (ysize a) y (y + h)) (slice_bounds (xsize a) x (x + w))
           binim = Inr True"
  shows "label_plane True count binim y x h w p a = Inl (OverlapError count, a)"
  using assms by (simp add: label_plane_def Let_def)

text \<open>
  Claim C2. With \<^verbatim>\<open>check_overlaps\<close> set, let the objects \<open>pre\<close>, the masks \<open>ms1\<close> of
  the object at position \<open>length pre\<close> and the planes \<open>ps1\<close> of its mask \<open>m\<close> be written
  without an exception, leaving the array \<open>a3\<close>. If at the next plane \<open>p\<close> of \<open>m\<close> the
  overlap test finds a set pixel of the plane on a truthy entry of the region, then
  \<^verbatim>\<open>masks_to_labels\<close> raises the overlap exception that carries the 0-based position of
  the object, and the array is \<open>a3\<close>: everything written before stays.
\<close>

theorem overlap_raises_no_rollback:
  assumes "fst (lead labels) \<noteq> 0"
    and "shape_asserts ign (label_shape labels) (st, sc, sz, sy, sx) ''TCZYX''"
    and "masks = pre @ (ms1 @ m # ms2) # post"
    and "for_enumerate (\<lambda>count shapes. for_each (label_mask True ign (st, sc, sz) count) shapes)
           0 pre labels = Inr a1"
    and "for_each (label_mask True ign (st, sc, sz) (length pre)) ms1 a1 = Inr a2"
    and "mask_to_binim_yx m = Inr (binim, (t, c, z, y, x, h, w))"
    and "broadcast_planes ign (st, sc, sz) (t, c, z) = ps1 @ p # ps2"
    and "for_each (label_plane True (length pre) binim y x h w) ps1 a2 = Inr a3"
    and "norm_tcz (lead a3) p = Inr q"
    and "region_overlaps a3 q (slice_bounds (ysize a3) y (y + h))
           (slice_bounds (xsize a3) x (x + w)) binim = Inr True"
  shows "masks_to_labels masks (st, sc, sz, sy, sx) ign True labels =
           Inl (OverlapError (length pre), a3)"
proof -
  have plane: "label_plane True (length pre) binim y x h w p a3 = Inl (OverlapError (length pre), a3)"
    using assms(9,10) by (rule label_plane_overlap)
  have mask: "label_mask True ign (st, sc, sz) (length pre) m a2 = Inl (OverlapError (length pre), a3)"
    by (simp add: label_mask_planes assms(6,7,8) for_each_append plane)
  have roi: "for_each (label_mask True ign (st, sc, sz) (length pre)) (ms1 @ m # ms2) a1 =
      Inl (OverlapError (length pre), a3)"
    by (simp add: for_each_append assms(5) mask)
  have "label_loops True ign (st, sc, sz) masks labels = Inl (OverlapError (length pre), a3)"
    unfolding label_loops_def assms(3)
    by (simp add: for_enumerate_append assms(4) roi)
  then show ?thesis
    using assms(1,2) by (simp add: masks_to_labels_def)
qed

theorem overlap_raises_no_rollback_witness:
  "(case masks_to_labels
          [[\<lparr>theT = None, theC = None, theZ = Some 0, mask_x = 0, mask_y = 0,
              mask_width = 2, mask_height = 2, mask_bytes = [0xF0]\<rparr>],
           [\<lparr>theT = None, theC = None, theZ = Some 0, mask_x = 1, mask_y = 1,
              mask_width = 2, mask_height = 2, mask_bytes = [0xF0]\<rparr>]]
          (1, 1, 1, 3, 3) {CHR ''T'', CHR ''C''} True (zeros (1, 1, 1) 3 3 Int64) of
      Inl (e, a) \<Rightarrow>
        e = OverlapError 1 \<and>
        map (\<lambda>yy. map (cells a (0, 0, 0) yy) [0, 1, 2]) [0, 1, 2] = [[1, 1, 0], [1, 1, 0], [0, 0, 0]]
    | Inr a \<Rightarrow> False)"
proof -
  let ?mA = "\<lparr>theT = None, theC = None, theZ = Some 0, mask_x = 0, mask_y = 0,
              mask_width = 2, mask_height = 2, mask_bytes = [0xF0 :: 8 word]\<rparr>"
  let ?mB = "\<lparr>theT = None, theC = None, theZ = Some 0, mask_x = 1, mask_y = 1,
              mask_width = 2, mask_height = 2, mask_bytes = [0xF0 :: 8 word]\<rparr>"
  let ?ign = "{CHR ''T'', CHR ''C''}"
  let ?z = "zeros (1, 1, 1) 3 3 Int64 :: label_array"
  let ?pl = "\<lparr>nrows = 2, ncols = 2, pbits = [1, 1, 1, 1]\<rparr>"
  let ?run = "for_enumerate (\<lambda>count shapes. for_each (label_mask True ?ign (1, 1, 1) count) shapes)
           0 [[?mA]] ?z"
  have run: "case ?run of Inl e \<Rightarrow> False
     | Inr a \<Rightarrow> lead a = (1, 1, 1) \<and> ysize a = 3 \<and> xsize a = 3 \<and>
         map (\<lambda>yy. map (cells a (0, 0, 0) yy) [0, 1, 2]) [0, 1, 2] = [[1, 1, 0], [1, 1, 0], [0, 0, 0]]"
    by code_simp
  then obtain a1 where a1: "?run = Inr a1" and m1: "lead a1 = (1, 1, 1)" "ysize a1 = 3" "xsize a1 = 3"
    and c1: "map (\<lambda>yy. map (cells a1 (0, 0, 0) yy) [0, 1, 2]) [0, 1, 2] = [[1, 1, 0], [1, 1, 0], [0, 0, 0]]"
    by (cases ?run) auto
  have h1: "fst (lead ?z) \<noteq> 0" by (simp add: zeros_def)
  have h2: "shape_asserts ?ign (label_shape ?z) (1, 1, 1, 3, 3) ''TCZYX''"
    by (simp add: zeros_def label_shape_def axis_extent_def DIMENSION_ORDER_def)
  have h3: "[[?mA], [?mB]] = [[?mA]] @ ([] @ ?mB # []) # []" by simp
  have h5: "for_each (label_mask True ?ign (1, 1, 1) (length [[?mA]])) [] a1 = Inr a1" by simp
  have h6: "mask_to_binim_yx ?mB = Inr (?pl, (None, None, Some 0, 1, 1, 2, 2))"
    by code_simp
  have h7: "broadcast_planes ?ign (1, 1, 1) (None, None, Some 0) = [] @ (0, 0, 0) # []"
    by (simp add: broadcast_planes_def get_indices_def)
  have h8: "for_each (label_plane True (length [[?mA]]) ?pl 1 1 2 2) [] a1 = Inr a1" by simp
  have h9: "norm_tcz (lead a1) (0, 0, 0) = Inr (0, 0, 0)"
    by (simp add: m1 norm_tcz_def norm_index_def)
  have c11: "cells a1 (0, 0, 0) (Suc 0) (Suc 0) = 1" using c1 by simp
  have upt2: "[0..<2] = [0, 1]" by code_simp
  have h10: "region_overlaps a1 (0, 0, 0) (slice_bounds (ysize a1) 1 (1 + 2))
           (slice_bounds (xsize a1) 1 (1 + 2)) ?pl = Inr True"
    by (simp add: m1 region_overlaps_def slice_bounds_def clip_bound_def broadcastable_def
        bdim_def bidx_def plane_at_def c11 upt2 Let_def)
  have "masks_to_labels [[?mA], [?mB]] (1, 1, 1, 3, 3) ?ign True ?z = Inl (OverlapError (length [[?mA]]), a1)"
    by (rule overlap_raises_no_rollback [OF h1 h2 h3 a1 h5 h6 h7 h8 h9 h10])
  then show ?thesis using c1 by simp
qed

section \<open>The label map\<close>

lemma read_label_map_append:
  "read_label_map roi_map (pre @ ls) lmap =
     (case read_label_map roi_map pre lmap of
        (None, lm) \<Rightarrow> read_label_map roi_map ls lm
      | (Some e, lm) \<Rightarrow> (Some e, lm))"
  by (induction pre arbitrary: lmap)
    (simp_all add: Let_def split: list.splits sum.splits option.splits)

lemma read_label_map_stops:
  assumes "read_label_map roi_map [bad] lm = (Some e, lm')"
  shows "read_label_map roi_map (bad # rest) lm = (Some e, lm')"
  using assms by (simp add: Let_def split: list.splits sum.splits option.splits)

lemma read_label_map_failed_line:
  assumes "read_label_map roi_map [bad] lm = (Some e, lm')"
  shows "lm' = lm \<or> (\<exists>name. name \<notin> set (map fst lm) \<and> lm' = lm @ [(name, [])])"
  using assms
  by (auto simp: dict_default_def Let_def split: list.splits sum.splits option.splits if_splits)

lemma label_dtype_label_map [simp]:
  "label_dtype (a\<lparr>label_map := lines\<rparr>) = label_dtype a"
  by (simp add: label_dtype_def split: sum.splits option.splits)

lemma image_masks_to_zarr_label_map:
  "image_masks_to_zarr img rois (a\<lparr>label_map := Some lines\<rparr>) g =
     (case label_dtype a of
        Inl e \<Rightarrow> Inl (e, g)
      | Inr dtype \<Rightarrow>
          if collect_masks rois [] = [] then Inr g
          else if style a = ''split'' then
            for_each (\<lambda>(roi_id, roi). save (saver_of img dtype (style a)) [roi] (str_int roi_id))
              (collect_masks rois []) g
          else
            for_each (\<lambda>(name, vals). save (saver_of img dtype (style a)) vals name)
              (snd (read_label_map (collect_masks rois []) lines [])) g)"
  by (cases "label_dtype a") (simp_all add: image_masks_to_zarr_def Let_def)

text \<open>
  Claim C8 says that a malformed line discards the whole label map, so that no array is
  written. For the ROI 5 and the lines \<open>1,a,5\<close> and \<open>x\<close>, the second line raises in the
  unpacking of its fields, the exception is caught, and the group \<open>a\<close> collected from the
  first line is saved.
\<close>

theorem malformed_label_map_counterexample:
  "fst (read_label_map
          [(5, [\<lparr>theT = None, theC = None, theZ = None, mask_x = 0, mask_y = 0,
                  mask_width = 1, mask_height = 1, mask_bytes = [0x80]\<rparr>])]
          [''1,a,5'', ''x''] []) = Some ValueError \<and>
   (case image_masks_to_zarr
           \<lparr>image_size_t = 1, image_size_c = 1, image_size_z = 1, image_size_y = 1,
              image_size_x = 1, image_source_ok = True\<rparr>
           [\<lparr>roi_id = 5, roi_shapes =
               [MaskI \<lparr>theT = None, theC = None, theZ = None, mask_x = 0, mask_y = 0,
                        mask_width = 1, mask_height = 1, mask_bytes = [0x80]\<rparr>]\<rparr>]
           \<lparr>label_bits = ''64'', style = ''labeled'', label_name = ''0'',
              label_map = Some [''1,a,5'', ''x'']\<rparr>
           \<lparr>datasets = Map.empty, labels_attr = []\<rparr> of
      Inl (e, g) \<Rightarrow> False
    | Inr g \<Rightarrow>
        labels_attr g = [''a''] \<and>
        (case datasets g ''a'' of
           Some (LabelArray a) \<Rightarrow> cells a (0, 0, 0) 0 0 = 1
         | _ \<Rightarrow> False))"
  by code_simp

text \<open>
  Claim C8, amended. When the lines before a line are read without an exception and
  the line itself raises, reading stops there: the lines after it are not read, the
  entries collected from the lines before it are all kept (at most the name of
  the failing line is added, with an empty list), and \<^verbatim>\<open>save\<close> is called for them as if
  the file ended with the failing line; when the failing line added no name, as if the
  file ended before it.
\<close>

theorem malformed_line_keeps_groups:
  assumes "read_label_map (collect_masks rois []) pre [] = (None, lm)"
    and "read_label_map (collect_masks rois []) [bad] lm = (Some e, lm')"
  shows "read_label_map (collect_masks rois []) (pre @ bad # rest) [] = (Some e, lm') \<and>
         (lm' = lm \<or> (\<exists>name. name \<notin> set (map fst lm) \<and> lm' = lm @ [(name, [])])) \<and>
         image_masks_to_zarr img rois (a\<lparr>label_map := Some (pre @ bad # rest)\<rparr>) g =
           image_masks_to_zarr img rois (a\<lparr>label_map := Some (pre @ [bad])\<rparr>) g \<and>
         (lm' = lm \<longrightarrow>
            image_masks_to_zarr img rois (a\<lparr>label_map := Some (pre @ bad # rest)\<rparr>) g =
              image_masks_to_zarr img rois (a\<lparr>label_map := Some pre\<rparr>) g)"
proof -
  let ?rm = "collect_masks rois []"
  have full: "read_label_map ?rm (pre @ bad # rest) [] = (Some e, lm')"
    by (simp only: read_label_map_append assms(1) read_label_map_stops [OF assms(2)]
        prod.case option.case)
  have cut: "read_label_map ?rm (pre @ [bad]) [] = (Some e, lm')"
    by (simp only: read_label_map_append assms prod.case option.case)
  have same: "image_masks_to_zarr img rois (a\<lparr>label_map := Some (pre @ bad # rest)\<rparr>) g =
      image_masks_to_zarr img rois (a\<lparr>label_map := Some (pre @ [bad])\<rparr>) g"
    by (simp only: image_masks_to_zarr_label_map full cut)
  have before: "image_masks_to_zarr img rois (a\<lparr>label_map := Some (pre @ bad # rest)\<rparr>) g =
      image_masks_to_zarr img rois (a\<lparr>label_map := Some pre\<rparr>) g" if "lm' = lm"
    by (simp only: image_masks_to_zarr_label_map full assms(1) that snd_conv)
  from full read_label_map_failed_line [OF assms(2)] same before show ?thesis by blast
qed


theorem malformed_line_keeps_groups_witness:
  "read_label_map
      (collect_masks [\<lparr>roi_id = 5, roi_shapes =
               [MaskI \<lparr>theT = None, theC = None, theZ = None, mask_x = 0, mask_y = 0,
                        mask_width = 1, mask_height = 1, mask_bytes = [0x80]\<rparr>]\<rparr>] [])
      ([''1,a,5''] @ ''x'' # [''2,b,5'']) [] =
     (Some ValueError,
      [(''a'', [[\<lparr>theT = None, theC = None, theZ = None, mask_x = 0, mask_y = 0,
                  mask_width = 1, mask_height = 1, mask_bytes = [0x80]\<rparr>]])]) \<and>
   image_masks_to_zarr
       \<lparr>image_size_t = 1, image_size_c = 1, image_size_z = 1, image_size_y = 1,
          image_size_x = 1, image_source_ok = True\<rparr>
       [\<lparr>roi_id = 5, roi_shapes =
               [MaskI \<lparr>theT = None, theC = None, theZ = None, mask_x = 0, mask_y = 0,
                        mask_width = 1, mask_height = 1, mask_bytes = [0x80]\<rparr>]\<rparr>]
       \<lparr>label_bits = ''64'', style = ''labeled'', label_name = ''0'',
          label_map = Some ([''1,a,5''] @ ''x'' # [''2,b,5''])\<rparr>
       \<lparr>datasets = Map.empty, labels_attr = []\<rparr> =
     image_masks_to_zarr
       \<lparr>image_size_t = 1, image_size_c = 1, image_size_z = 1, image_size_y = 1,
          image_size_x = 1, image_source_ok = True\<rparr>
       [\<lparr>roi_id = 5, roi_shapes =
               [MaskI \<lparr>theT = None, theC = None, theZ = None, mask_x = 0, mask_y = 0,
                        mask_width = 1, mask_height = 1, mask_bytes = [0x80]\<rparr>]\<rparr>]
       \<lparr>label_bits = ''64'', style = ''labeled'', label_name = ''0'',
          label_map = Some [''1,a,5'']\<rparr>
       \<lparr>datasets = Map.empty, labels_attr = []\<rparr>"
proof -
  let ?m = "\<lparr>theT = None, theC = None, theZ = None, mask_x = 0, mask_y = 0,
                        mask_width = 1, mask_height = 1, mask_bytes = [0x80 :: 8 word]\<rparr>"
  let ?rois = "[\<lparr>roi_id = 5, roi_shapes = [MaskI ?m]\<rparr>]"
  let ?lm = "[(''a'', [[?m]])]"
  let ?a = "\<lparr>label_bits = ''64'', style = ''labeled'', label_name = ''0'', label_map = None\<rparr>"
  have h1: "read_label_map (collect_masks ?rois []) [''1,a,5''] [] = (None, ?lm)"
    by code_simp
  have h2: "read_label_map (collect_masks ?rois []) [''x''] ?lm = (Some ValueError, ?lm)"
    by code_simp
  note th = malformed_line_keeps_groups [OF h1 h2, of "[''2,b,5'']"
      "\<lparr>image_size_t = 1, image_size_c = 1, image_size_z = 1, image_size_y = 1,
          image_size_x = 1, image_source_ok = True\<rparr>" ?a
      "\<lparr>datasets = Map.empty, labels_attr = []\<rparr>"]
  from th [THEN conjunct1]
    th [THEN conjunct2, THEN conjunct2, THEN conjunct2, rule_format, OF refl]
  show ?thesis by simp
qed

section \<open>Boolean arrays\<close>

lemma add_region_bool:
  "adtype a = Bool \<Longrightarrow> add_region a p ys xs binim False k = Inl TypeError"
  by (simp add: add_region_def Let_def)

lemma label_plane_bool:
  assumes "adtype a = Bool"
  shows "\<exists>e. label_plane chk count binim y x h w p a = Inl (e, a)"
  using assms
  by (auto simp: label_plane_def Let_def add_region_bool split: sum.splits bool.splits)

text \<open>
  Claim C10, at one ROI with one mask of one pixel, style "split" and bit depth "1".
  The bit depth 1 is replaced by 64 bits in the style "labeled" only, so the array of
  the ROI is created boolean. \<^verbatim>\<open>masks_to_labels\<close> then adds the integer plane
  \<^verbatim>\<open>binim_yx * (count + 1)\<close> in place into the boolean region, which numpy refuses
  (casting rule \<^verbatim>\<open>same_kind\<close>): the write raises \<^verbatim>\<open>TypeError\<close>, the pixel of the mask
  is not set, and the name is not registered.
\<close>

theorem split_bool_write_raises:
  "label_dtype \<lparr>label_bits = ''1'', style = ''labeled'', label_name = ''0'', label_map = None\<rparr>
     = Inr Int64 \<and>
   label_dtype \<lparr>label_bits = ''1'', style = ''split'', label_name = ''0'', label_map = None\<rparr>
     = Inr Bool \<and>
   (case image_masks_to_zarr
           \<lparr>image_size_t = 1, image_size_c = 1, image_size_z = 1, image_size_y = 1,
              image_size_x = 1, image_source_ok = True\<rparr>
           [\<lparr>roi_id = 7, roi_shapes =
               [MaskI \<lparr>theT = None, theC = None, theZ = None, mask_x = 0, mask_y = 0,
                        mask_width = 1, mask_height = 1, mask_bytes = [0x80]\<rparr>]\<rparr>]
           \<lparr>label_bits = ''1'', style = ''split'', label_name = ''0'', label_map = None\<rparr>
           \<lparr>datasets = Map.empty, labels_attr = []\<rparr> of
      Inl (e, g) \<Rightarrow>
        e = TypeError \<and> labels_attr g = [] \<and>
        (case datasets g ''7'' of
           Some (LabelArray a) \<Rightarrow> adtype a = Bool \<and> cells a (0, 0, 0) 0 0 = 0
         | _ \<Rightarrow> False)
    | Inr g \<Rightarrow> False)"
  by code_simp

end
